theory Spec2Isabelle
  imports Complex_Main "HOL-Library.Sublist" "HOL-Library.Log_Nat"
begin

section \<open>Data model: a DataFrame with nullable cells\<close>

text \<open>
  The module \<^verbatim>\<open>titanic_utils.py\<close> works on a pandas DataFrame. A frame is modelled
  row-wise: the ordered column labels, and the rows in order, each row being its index
  label together with one cell per column. A cell is \<open>None\<close> where pandas' \<^verbatim>\<open>isna()\<close>
  reports a missing value and \<open>Some v\<close> otherwise.

  The frames of the program are rectangular and, as the specification's data model
  requires, carry pairwise distinct column labels: \<open>wf_frame\<close>.
\<close>

type_synonym 'a row = "nat \<times> 'a option list"

record 'a frame =
  frame_columns :: "string list"
  frame_rows :: "'a row list"

definition wf_frame :: "'a frame \<Rightarrow> bool" where
  "wf_frame df =
     (distinct (frame_columns df) \<and>
      list_all (\<lambda>r. length (snd r) = length (frame_columns df)) (frame_rows df))"

text \<open>The exceptions the three functions can raise.\<close>

datatype pyerror = NameError string | KeyError string | TypeError string

text \<open>Position of a label among the column labels (the first one, labels being distinct).\<close>

primrec index_of :: "string \<Rightarrow> string list \<Rightarrow> nat" where
  "index_of c [] = 0"
| "index_of c (x # xs) = (if x = c then 0 else Suc (index_of c xs))"

text \<open>\<^verbatim>\<open>df[column].isna()\<close> at one row: is the cell of that row under the label missing?\<close>

definition cell_isna :: "'a frame \<Rightarrow> string \<Rightarrow> 'a row \<Rightarrow> bool" where
  "cell_isna df c r = (snd r ! index_of c (frame_columns df) = None)"

text \<open>\<^verbatim>\<open>df[column]\<close>: the column's cells in row order; \<^verbatim>\<open>KeyError\<close> for an unknown label.\<close>

definition getitem :: "'a frame \<Rightarrow> string \<Rightarrow> pyerror + 'a option list" where
  "getitem df c =
     (if c \<in> set (frame_columns df)
      then Inr (map (\<lambda>r. snd r ! index_of c (frame_columns df)) (frame_rows df))
      else Inl (KeyError c))"

text \<open>\<^verbatim>\<open>series.isna().sum()\<close>: the number of missing cells of a column.\<close>

definition isna_sum :: "'a option list \<Rightarrow> nat" where
  "isna_sum series = length (filter (\<lambda>v. v = None) series)"

text \<open>\<^verbatim>\<open>df[column].isna().sum()\<close>, with the \<^verbatim>\<open>KeyError\<close> of \<^verbatim>\<open>df[column]\<close>.\<close>

definition column_isna_sum :: "'a frame \<Rightarrow> string \<Rightarrow> pyerror + nat" where
  "column_isna_sum df c =
     (case getitem df c of Inl e \<Rightarrow> Inl e | Inr series \<Rightarrow> Inr (isna_sum series))"

text \<open>
  \<^verbatim>\<open>df.dropna(subset=drop_col, inplace=True)\<close>: the rows whose cell under the label is
  missing are removed from the frame; labels, index and the other rows stay. It is only
  called after \<^verbatim>\<open>df[drop_col]\<close> has succeeded.
\<close>

definition dropna_subset :: "'a frame \<Rightarrow> string \<Rightarrow> 'a frame" where
  "dropna_subset df c = df\<lparr>frame_rows := filter (\<lambda>r. \<not> cell_isna df c r) (frame_rows df)\<rparr>"

text \<open>\<^verbatim>\<open>df.isna().any()\<close>: per column position, whether some row misses that cell.\<close>

definition isna_any :: "'a frame \<Rightarrow> bool list" where
  "isna_any df =
     map (\<lambda>i. list_ex (\<lambda>r. snd r ! i = None) (frame_rows df)) [0..<length (frame_columns df)]"

text \<open>\<^verbatim>\<open>df.columns[mask].tolist()\<close>: the labels selected by a boolean mask.\<close>

definition columns_where :: "string list \<Rightarrow> bool list \<Rightarrow> string list" where
  "columns_where cols keep = map fst (filter snd (zip cols keep))"

section \<open>Binary floating point\<close>

text \<open>
  The percentage of the printed line and the bound of the classifier are computed in
  IEEE binary64. A float is the rational number it denotes. The counts of the program are
  below \<open>2^53\<close> and convert exactly, and all values stay far inside the normal range, so
  overflow and subnormal numbers are left out.

  \<open>rne\<close> rounds to the nearest integer, ties to the even one (numpy's \<^verbatim>\<open>rint\<close>).
  \<open>ilog2 q\<close> is the integer part of the binary logarithm of a positive \<open>q\<close>, and \<open>fl q\<close>
  is the float nearest to \<open>q\<close>, ties to the even mantissa of 53 bits: the result of one
  arithmetic operation whose exact value is \<open>q\<close>, and the value of a decimal literal \<open>q\<close>.
\<close>

definition rne :: "rat \<Rightarrow> int" where
  "rne x =
     (let f = \<lfloor>x\<rfloor>; d = x - of_int f
      in if d < 1 / 2 then f else if 1 / 2 < d then f + 1 else if even f then f else f + 1)"

definition ilog2 :: "rat \<Rightarrow> int" where
  "ilog2 q =
     (let (a, b) = quotient_of q; d = bitlen a - bitlen b
      in if q < 2 powi d then d - 1 else d)"

definition fl :: "rat \<Rightarrow> rat" where
  "fl q =
     (if q = 0 then 0
      else let e = ilog2 \<bar>q\<bar> - 52
           in sgn q * of_int (rne (\<bar>q\<bar> / 2 powi e)) * 2 powi e)"

section \<open>The printed line\<close>

text \<open>Decimal text of a count, as \<^verbatim>\<open>{num_nan}\<close> prints it.\<close>

fun str_nat :: "nat \<Rightarrow> string" where
  "str_nat n =
     (if n < 10 then [''0123456789'' ! n]
      else str_nat (n div 10) @ [''0123456789'' ! (n mod 10)])"

declare str_nat.simps [simp del]

text \<open>
  \<^verbatim>\<open>round((num_nan/len_df)*100,3)\<close> for \<^verbatim>\<open>len_df > 0\<close>. \<^verbatim>\<open>num_nan\<close> is a numpy integer, so
  the quotient and the product are numpy floats: the quotient is rounded to a float, its
  product with 100 is rounded again, and \<^verbatim>\<open>round(x, 3)\<close> is numpy's: \<open>x\<close> times 1000 (a
  third rounding), \<^verbatim>\<open>rint\<close>, divided by 1000. \<open>pct_thousandths\<close> is the integer that
  \<^verbatim>\<open>rint\<close> returns; the printed value is the float nearest to that many thousandths.
  (Python's own \<^verbatim>\<open>round\<close> on a plain float decides by the exact decimal value of \<open>x\<close> and
  gives 0.013 where this gives 0.012 for 1 of 8000.)
\<close>

definition pct_thousandths :: "nat \<Rightarrow> nat \<Rightarrow> int" where
  "pct_thousandths num_nan len_df =
     rne (fl (fl (fl (Fract (int num_nan) (int len_df)) * 100) * 1000))"

text \<open>
  The text of the float nearest to \<open>r\<close> thousandths, as an f-string prints it: the shortest
  decimal that reads back as that float, which for \<open>r\<close> below \<open>10^15\<close> is the decimal
  \<open>r/1000\<close> without trailing zeros, with at least one digit after the point.
\<close>

definition str_thousandths :: "int \<Rightarrow> string" where
  "str_thousandths r =
     (let f = r mod 1000;
          d1 = ''0123456789'' ! nat (f div 100);
          d2 = ''0123456789'' ! nat (f div 10 mod 10);
          d3 = ''0123456789'' ! nat (f mod 10)
      in str_nat (nat (r div 1000)) @ ''.'' @
         (if f mod 100 = 0 then [d1] else if f mod 10 = 0 then [d1, d2] else [d1, d2, d3]))"

text \<open>
  The text of \<^verbatim>\<open>{round((num_nan/len_df)*100,3)}\<close>. With \<^verbatim>\<open>len_df = 0\<close> the numpy division
  does not raise: it warns and gives \<^verbatim>\<open>nan\<close> for 0/0 and \<^verbatim>\<open>inf\<close> otherwise, and both
  pass through the product and the rounding.
\<close>

definition pct_text :: "nat \<Rightarrow> nat \<Rightarrow> string" where
  "pct_text num_nan len_df =
     (if len_df = 0 then (if num_nan = 0 then ''nan'' else ''inf'')
      else str_thousandths (pct_thousandths num_nan len_df))"

text \<open>The line printed by \<^verbatim>\<open>drop_cols\<close>.\<close>

definition dropped_line :: "nat \<Rightarrow> string \<Rightarrow> nat \<Rightarrow> string" where
  "dropped_line num_nan drop_col len_df =
     ''Dropped '' @ str_nat num_nan @ '' rows due to nan values in '' @ drop_col @
     '' column, corresponding to a '' @ pct_text num_nan len_df @ ''% of the dataset length''"

section \<open>Row dropper: \<^verbatim>\<open>drop_cols\<close>\<close>

text \<open>
  \<^verbatim>\<open>
  for drop_col in cols:
      num_nan = df[drop_col].isna().sum()
      print(f'Dropped {num_nan} rows ... {round((num_nan/len_df)*100,3)}% ...')
      df.dropna(subset=drop_col, inplace=True)
  return df
  \<close>
  The frame is mutated in place and is itself the return value. The result is the
  exception raised, if any, the frame as the call leaves it, and the lines printed, in
  order. An exception of \<^verbatim>\<open>df[drop_col]\<close> leaves the rows removed and the lines printed
  so far.
\<close>

fun drop_cols ::
  "'a frame \<Rightarrow> string list \<Rightarrow> nat \<Rightarrow> (pyerror + unit) \<times> 'a frame \<times> string list" where
  "drop_cols df [] len_df = (Inr (), df, [])"
| "drop_cols df (drop_col # cols) len_df =
     (case column_isna_sum df drop_col of
        Inl e \<Rightarrow> (Inl e, df, [])
      | Inr num_nan \<Rightarrow>
          (let line = dropped_line num_nan drop_col len_df;
               df' = dropna_subset df drop_col;
               (res, df'', lines) = drop_cols df' cols len_df
           in (res, df'', line # lines)))"

section \<open>Column classifier: \<^verbatim>\<open>id_nan_columns\<close>\<close>

text \<open>
  The names bound at module level when a function of the module runs: the two imports
  and the three function definitions. A name that is not a local of the running function
  is looked up here (and then among Python's builtins, none of which is called
  \<^verbatim>\<open>colummns_wnan\<close>); an unbound name raises \<^verbatim>\<open>NameError\<close>.
\<close>

datatype pyobj = Module string | Function string | ListObj "string list"

definition module_globals :: "(string \<times> pyobj) list" where
  "module_globals =
     [(''np'', Module ''numpy''),
      (''pd'', Module ''pandas''),
      (''clean_nan_values'', Function ''clean_nan_values''),
      (''id_nan_columns'', Function ''id_nan_columns''),
      (''drop_cols'', Function ''drop_cols'')]"

definition load_global :: "string \<Rightarrow> pyerror + pyobj" where
  "load_global name =
     (case map_of module_globals name of
        None \<Rightarrow> Inl (NameError name)
      | Some v \<Rightarrow> Inr v)"

text \<open>
  The body of the loop, run over a list of labels:
  \<^verbatim>\<open>
      if df[column].isna().sum() > len_df*max_nans:
          replacing_nans.append(column)
      else:
          drop_nans.append(column)
  \<close>
  \<open>max_nans\<close> is the decimal value written for the threshold; the float it denotes is
  \<open>fl max_nans\<close>. The product \<^verbatim>\<open>len_df*max_nans\<close> is a float product, and the count is
  compared with it exactly.
\<close>

fun id_nan_loop ::
  "'a frame \<Rightarrow> nat \<Rightarrow> rat \<Rightarrow> string list \<Rightarrow> string list \<times> string list \<Rightarrow>
     pyerror + (string list \<times> string list)" where
  "id_nan_loop df len_df max_nans [] (replacing_nans, drop_nans) =
     Inr (replacing_nans, drop_nans)"
| "id_nan_loop df len_df max_nans (column # rest) (replacing_nans, drop_nans) =
     (case column_isna_sum df column of
        Inl e \<Rightarrow> Inl e
      | Inr num_nan \<Rightarrow>
          if rat_of_int (int num_nan) > fl (rat_of_int (int len_df) * fl max_nans)
          then id_nan_loop df len_df max_nans rest (replacing_nans @ [column], drop_nans)
          else id_nan_loop df len_df max_nans rest (replacing_nans, drop_nans @ [column]))"

text \<open>
  \<^verbatim>\<open>
  def id_nan_columns(df, columns, len_df, max_nans=0.05):
      drop_nans = []
      replacing_nans =[]
      for column in colummns_wnan:
          ...
      return replacing_nans, drop_nans
  \<close>
  The loop iterates over the name \<^verbatim>\<open>colummns_wnan\<close>, which is not a parameter or local
  of the function; the parameter \<^verbatim>\<open>columns\<close> is never read.
\<close>

definition id_nan_columns ::
  "'a frame \<Rightarrow> string list \<Rightarrow> nat \<Rightarrow> rat \<Rightarrow> pyerror + (string list \<times> string list)" where
  "id_nan_columns df columns len_df max_nans =
     (let drop_nans = []; replacing_nans = [] in
      case load_global ''colummns_wnan'' of
        Inl e \<Rightarrow> Inl e
      | Inr (ListObj names) \<Rightarrow> id_nan_loop df len_df max_nans names (replacing_nans, drop_nans)
      | Inr _ \<Rightarrow> Inl (TypeError ''object is not iterable''))"

text \<open>The default \<^verbatim>\<open>max_nans=0.05\<close>.\<close>

definition default_max_nans :: rat where
  "default_max_nans = 5 / 100"

section \<open>Orchestrator: \<^verbatim>\<open>clean_nan_values\<close>\<close>

text \<open>
  \<^verbatim>\<open>
  colummns_wnan = df.columns[df.isna().any()].tolist()
  len_df = len(df)
  replacing_nans, drop_nans = id_nan_columns(df, colummns_wnan, len_df)
  df = drop_cols(df, drop_nans, len_df)
  return df, replacing_nans
  \<close>
  The result is the exception raised or the returned list \<^verbatim>\<open>replacing_nans\<close>, the frame
  as the call leaves it (the returned frame is that same object), and the lines printed.
\<close>

definition clean_nan_values ::
  "'a frame \<Rightarrow> (pyerror + string list) \<times> 'a frame \<times> string list" where
  "clean_nan_values df =
     (let colummns_wnan = columns_where (frame_columns df) (isna_any df);
          len_df = length (frame_rows df)
      in case id_nan_columns df colummns_wnan len_df default_max_nans of
           Inl e \<Rightarrow> (Inl e, df, [])
         | Inr (replacing_nans, drop_nans) \<Rightarrow>
             (case drop_cols df drop_nans len_df of
                (Inl e, df', lines) \<Rightarrow> (Inl e, df', lines)
              | (Inr u, df', lines) \<Rightarrow> (Inr replacing_nans, df', lines)))"

section \<open>Auxiliary notions and example frames\<close>

text \<open>The rows of a frame whose cell under a label is missing.\<close>

definition missing_rows :: "'a frame \<Rightarrow> string \<Rightarrow> 'a row list" where
  "missing_rows df c = filter (cell_isna df c) (frame_rows df)"

text \<open>
  The percentage as the specification words it, \<^verbatim>\<open>round(100 * N / original_row_count, 3)\<close>:
  the product first, then one division, then the rounding to three decimals.
\<close>

definition claimed_pct_text :: "nat \<Rightarrow> nat \<Rightarrow> string" where
  "claimed_pct_text n original_row_count =
     str_thousandths (rne (fl (fl (Fract (100 * int n) (int original_row_count)) * 1000)))"

text \<open>
  Five rows; \<open>a\<close> is missing in rows 0 and 1, \<open>b\<close> in rows 0 and 2, \<open>cabin\<close> in rows 1
  and 3. Dropping for \<open>a\<close> and then for \<open>b\<close> leaves rows 3 and 4.
\<close>

definition scenario_df :: "int frame" where
  "scenario_df =
     \<lparr>frame_columns = [''a'', ''b'', ''cabin''],
      frame_rows =
        [(0, [None, None, Some 10]),
         (1, [None, Some 5, None]),
         (2, [Some 1, None, Some 12]),
         (3, [Some 2, Some 6, None]),
         (4, [Some 3, Some 7, Some 14])]\<rparr>"

definition scenario_after_a :: "int frame" where
  "scenario_after_a =
     \<lparr>frame_columns = [''a'', ''b'', ''cabin''],
      frame_rows =
        [(2, [Some 1, None, Some 12]),
         (3, [Some 2, Some 6, None]),
         (4, [Some 3, Some 7, Some 14])]\<rparr>"

definition scenario_cleaned :: "int frame" where
  "scenario_cleaned =
     \<lparr>frame_columns = [''a'', ''b'', ''cabin''],
      frame_rows =
        [(3, [Some 2, Some 6, None]),
         (4, [Some 3, Some 7, Some 14])]\<rparr>"

definition scenario_lines :: "string list" where
  "scenario_lines =
     [''Dropped 2 rows due to nan values in a column, corresponding to a 40.0% of the dataset length'',
      ''Dropped 1 rows due to nan values in b column, corresponding to a 20.0% of the dataset length'']"

text \<open>
  Twenty-two rows; \<open>cabin\<close> is missing in rows 0 and 1 and \<open>age\<close> in row 0 only. With the
  threshold 0.05 the bound is 1.1 for 22 rows and 1.05 for 21 rows.
\<close>

definition passengers_df :: "int frame" where
  "passengers_df =
     \<lparr>frame_columns = [''cabin'', ''age''],
      frame_rows =
        (0, [None, None]) # (1, [None, Some 30]) # map (\<lambda>i. (i, [Some 1, Some 40])) [2..<22]\<rparr>"

text \<open>
  Twenty-two rows again; \<open>cabin\<close> is missing in rows 1 and 2 and \<open>age\<close> in row 0 only, so
  that the row missing \<open>age\<close> holds a value for \<open>cabin\<close>. \<open>rerun_cleaned\<close> is the frame
  without row 0.
\<close>

definition rerun_df :: "int frame" where
  "rerun_df =
     \<lparr>frame_columns = [''cabin'', ''age''],
      frame_rows =
        (0, [Some 1, None]) # (1, [None, Some 30]) # (2, [None, Some 35]) #
        map (\<lambda>i. (i, [Some 1, Some 40])) [3..<22]\<rparr>"

definition rerun_cleaned :: "int frame" where
  "rerun_cleaned =
     \<lparr>frame_columns = [''cabin'', ''age''],
      frame_rows =
        (1, [None, Some 30]) # (2, [None, Some 35]) #
        map (\<lambda>i. (i, [Some 1, Some 40])) [3..<22]\<rparr>"

text \<open>Three hundred and twenty rows with one column, missing in the first 23 rows.\<close>

definition sparse_df :: "int frame" where
  "sparse_df =
     \<lparr>frame_columns = [''age''],
      frame_rows =
        map (\<lambda>i. (i, [None])) [0..<23] @ map (\<lambda>i. (i, [Some 40])) [23..<320]\<rparr>"

section \<open>The unbound loop variable\<close>

lemma load_global_colummns_wnan:
  "load_global ''colummns_wnan'' = Inl (NameError ''colummns_wnan'')"
  by (simp add: load_global_def module_globals_def)

text \<open>
  C2. Every call of \<^verbatim>\<open>id_nan_columns\<close> raises \<^verbatim>\<open>NameError\<close> for the name
  \<^verbatim>\<open>colummns_wnan\<close>, whatever the frame, the candidate list, the row count and the
  threshold; hence every call of \<^verbatim>\<open>clean_nan_values\<close> raises the same \<^verbatim>\<open>NameError\<close>, with
  the frame exactly as it was passed (no row dropped) and nothing printed.
\<close>

theorem id_nan_columns_always_NameError:
  "id_nan_columns df columns len_df max_nans = Inl (NameError ''colummns_wnan'') \<and>
   clean_nan_values df = (Inl (NameError ''colummns_wnan''), df, [])"
  by (simp add: id_nan_columns_def clean_nan_values_def load_global_colummns_wnan)

section \<open>Facts about rounding\<close>

text \<open>
  \<open>rne\<close> is within one half of its argument and monotone; \<open>ilog2\<close> brackets a positive
  rational between two powers of two; hence \<open>fl q\<close> for positive \<open>q\<close> has a mantissa of 53
  bits, lies within half a unit of the last place of \<open>q\<close>, and is monotone.
\<close>

lemma rne_nearest: "\<bar>of_int (rne x) - x\<bar> \<le> 1 / 2"
proof -
  have "of_int \<lfloor>x\<rfloor> \<le> x" and "x < of_int \<lfloor>x\<rfloor> + 1" by linarith+
  then show ?thesis by (auto simp: rne_def Let_def)
qed

lemma rne_mono: "x \<le> y \<Longrightarrow> rne x \<le> rne y"
proof -
  assume xy: "x \<le> y"
  then have fl: "\<lfloor>x\<rfloor> \<le> \<lfloor>y\<rfloor>" by (rule floor_mono)
  show ?thesis
  proof (cases "\<lfloor>x\<rfloor> = \<lfloor>y\<rfloor>")
    case True
    with xy show ?thesis by (auto simp: rne_def Let_def)
  next
    case False
    with fl have "\<lfloor>x\<rfloor> + 1 \<le> \<lfloor>y\<rfloor>" by simp
    moreover have "rne x \<le> \<lfloor>x\<rfloor> + 1" by (auto simp: rne_def Let_def)
    moreover have "\<lfloor>y\<rfloor> \<le> rne y" by (auto simp: rne_def Let_def)
    ultimately show ?thesis by linarith
  qed
qed

lemma rne_of_int [simp]: "rne (of_int k) = k"
  by (simp add: rne_def)

lemma bitlen_powi_bounds:
  assumes "0 < a"
  shows "(2::rat) powi (bitlen a - 1) \<le> of_int a" and "of_int a < (2::rat) powi bitlen a"
proof -
  from assms have pos: "1 \<le> bitlen a" by (auto simp: bitlen_alt_def)
  from bitlen_bounds [OF assms]
  have lo: "2 ^ nat (bitlen a - 1) \<le> a" and hi: "a < 2 ^ nat (bitlen a)" by simp_all
  from lo have "(of_int (2 ^ nat (bitlen a - 1)) :: rat) \<le> of_int a"
    by (simp only: of_int_le_iff)
  with pos show "(2::rat) powi (bitlen a - 1) \<le> of_int a"
    by (simp add: power_int_def)
  from hi have "(of_int a :: rat) < of_int (2 ^ nat (bitlen a))"
    by (simp only: of_int_less_iff)
  with pos show "of_int a < (2::rat) powi bitlen a"
    by (simp add: power_int_def)
qed

lemma ilog2_bounds:
  assumes "0 < q"
  shows "2 powi ilog2 q \<le> q" and "q < 2 powi (ilog2 q + 1)"
proof -
  obtain a b where ab: "quotient_of q = (a, b)" by (cases "quotient_of q")
  then have b: "0 < b" and q: "q = of_int a / of_int b"
    by (auto dest: quotient_of_denom_pos quotient_of_div)
  with assms have a: "0 < a" by (simp add: zero_less_divide_iff)
  let ?d = "bitlen a - bitlen b"
  note A = bitlen_powi_bounds [OF a] and B = bitlen_powi_bounds [OF b]
  have bpos: "(0::rat) < of_int b" using b by simp
  have "2 powi (?d - 1) * of_int b < (2::rat) powi (?d - 1) * 2 powi bitlen b"
    using B(2) by (simp add: mult_strict_left_mono)
  also have "\<dots> = 2 powi (bitlen a - 1)"
    by (simp add: power_int_add [symmetric])
  also have "\<dots> \<le> of_int a" by (rule A(1))
  finally have lo: "2 powi (?d - 1) < q"
    using bpos by (simp add: q pos_less_divide_eq)
  have "of_int a < (2::rat) powi bitlen a" by (rule A(2))
  also have "\<dots> = 2 powi (?d + 1) * 2 powi (bitlen b - 1)"
    by (simp add: power_int_add [symmetric])
  also have "\<dots> \<le> 2 powi (?d + 1) * of_int b"
    using B(1) by (simp add: mult_left_mono)
  finally have hi: "q < 2 powi (?d + 1)"
    using bpos by (simp add: q pos_divide_less_eq)
  from lo hi show "2 powi ilog2 q \<le> q" and "q < 2 powi (ilog2 q + 1)"
    by (auto simp: ilog2_def ab Let_def)
qed

lemma ilog2_mono:
  assumes "0 < x" and "x \<le> y"
  shows "ilog2 x \<le> ilog2 y"
proof (rule ccontr)
  assume "\<not> ilog2 x \<le> ilog2 y"
  then have "ilog2 y + 1 \<le> ilog2 x" by simp
  then have "(2::rat) powi (ilog2 y + 1) \<le> 2 powi ilog2 x"
    by (intro power_int_increasing) simp_all
  also have "\<dots> \<le> x" using assms(1) by (rule ilog2_bounds)
  also note assms(2)
  also have "y < 2 powi (ilog2 y + 1)" using assms by (intro ilog2_bounds) simp
  finally show False by simp
qed

lemma fl_positive:
  "0 < q \<Longrightarrow> fl q = of_int (rne (q / 2 powi (ilog2 q - 52))) * 2 powi (ilog2 q - 52)"
  by (simp add: fl_def Let_def)

lemma fl_mantissa:
  assumes "0 < q"
  shows "2 ^ 52 \<le> rne (q / 2 powi (ilog2 q - 52))"
    and "rne (q / 2 powi (ilog2 q - 52)) \<le> 2 ^ 53"
proof -
  let ?e = "ilog2 q - 52"
  have p: "(0::rat) < 2 powi ?e" by simp
  have "(2::rat) ^ 52 * 2 powi ?e = 2 powi ilog2 q"
    using power_int_add [of "2::rat" 52 ?e] by simp
  also have "\<dots> \<le> q" using assms by (rule ilog2_bounds)
  finally have "of_int (2 ^ 52) \<le> q / 2 powi ?e"
    using p by (simp add: pos_le_divide_eq)
  from rne_mono [OF this] show "2 ^ 52 \<le> rne (q / 2 powi ?e)"
    by (simp only: rne_of_int)
  have "q < 2 powi (ilog2 q + 1)" using assms by (rule ilog2_bounds)
  also have "\<dots> = 2 ^ 53 * 2 powi ?e"
    using power_int_add [of "2::rat" 53 ?e] by (simp add: add.commute)
  finally have "q / 2 powi ?e \<le> of_int (2 ^ 53)"
    using p by (simp add: pos_divide_le_eq)
  from rne_mono [OF this] show "rne (q / 2 powi ?e) \<le> 2 ^ 53"
    by (simp only: rne_of_int)
qed

lemma fl_nearest:
  assumes "0 < q"
  shows "\<bar>fl q - q\<bar> \<le> 2 powi (ilog2 q - 52) / 2"
proof -
  let ?p = "(2::rat) powi (ilog2 q - 52)"
  have p: "0 < ?p" by simp
  have "fl q - q = (of_int (rne (q / ?p)) - q / ?p) * ?p"
    using p by (simp add: fl_positive [OF assms] left_diff_distrib)
  then have "\<bar>fl q - q\<bar> = \<bar>of_int (rne (q / ?p)) - q / ?p\<bar> * ?p"
    using p by (simp add: abs_mult)
  also have "\<dots> \<le> 1 / 2 * ?p"
    using p by (intro mult_right_mono rne_nearest) simp
  finally show ?thesis by simp
qed

lemma fl_mono_positive:
  assumes "0 < x" and "x \<le> y"
  shows "fl x \<le> fl y"
proof -
  from assms have y: "0 < y" by simp
  let ?ex = "ilog2 x - 52" and ?ey = "ilog2 y - 52"
  from ilog2_mono [OF assms] have le: "?ex \<le> ?ey" by simp
  show ?thesis
  proof (cases "?ex = ?ey")
    case True
    have "x / 2 powi ?ey \<le> y / 2 powi ?ey"
      using assms(2) by (simp add: divide_right_mono)
    then have "rne (x / 2 powi ?ey) \<le> rne (y / 2 powi ?ey)" by (rule rne_mono)
    then have "(of_int (rne (x / 2 powi ?ey)) :: rat) * 2 powi ?ey
        \<le> of_int (rne (y / 2 powi ?ey)) * 2 powi ?ey"
      by (intro mult_right_mono) simp_all
    then show ?thesis
      using True by (simp only: fl_positive [OF assms(1)] fl_positive [OF y])
  next
    case False
    with le have lt: "?ex + 53 \<le> ?ey + 52" by simp
    have "fl x \<le> of_int (2 ^ 53) * 2 powi ?ex"
      unfolding fl_positive [OF assms(1)]
      using fl_mantissa(2) [OF assms(1)] by (intro mult_right_mono) simp_all
    also have "\<dots> = 2 powi (?ex + 53)"
      using power_int_add [of "2::rat" ?ex 53] by simp
    also have "\<dots> \<le> 2 powi (?ey + 52)"
      using lt by (intro power_int_increasing) simp_all
    also have "\<dots> = of_int (2 ^ 52) * 2 powi ?ey"
      using power_int_add [of "2::rat" ?ey 52] by simp
    also have "\<dots> \<le> fl y"
      unfolding fl_positive [OF y]
      using fl_mantissa(1) [OF y] by (intro mult_right_mono) simp_all
    finally show ?thesis .
  qed
qed

lemma fl_nonneg: "0 \<le> q \<Longrightarrow> 0 \<le> fl q"
proof (cases "q = 0")
  case True
  then show ?thesis by (simp add: fl_def)
next
  case False
  assume "0 \<le> q"
  with False have q: "0 < q" by simp
  from fl_mantissa(1) [OF q] have "0 \<le> rne (q / 2 powi (ilog2 q - 52))" by simp
  then show ?thesis by (simp add: fl_positive [OF q])
qed

lemma fl_mono:
  assumes "0 \<le> x" and "x \<le> y"
  shows "fl x \<le> fl y"
proof (cases "x = 0")
  case True
  from assms have "0 \<le> fl y" by (intro fl_nonneg) simp
  with True show ?thesis by (simp add: fl_def)
next
  case False
  with assms(1) have "0 < x" by simp
  then show ?thesis using assms(2) by (rule fl_mono_positive)
qed

text \<open>Some floats, as numerator over a power of two.\<close>

lemma fl_known_values:
  "fl (5 / 100) = 3602879701896397 / 2 ^ 56"
  "fl (23 / 320) = 5179139571476070 / 2 ^ 56"
  "fl (fl (23 / 320) * 100) = 8092405580431359 / 2 ^ 50"
  "fl (100 * fl (57 / 100)) = 8022036836253695 / 2 ^ 47"
  "fl (20 * fl (15 / 100)) = 3"
  "fl 1 = 1"
  by code_simp+

section \<open>Facts about the row dropper\<close>

lemma cell_isna_rows_update [simp]: "cell_isna (df\<lparr>frame_rows := rs\<rparr>) = cell_isna df"
  by (rule ext)+ (simp add: cell_isna_def)

lemma cell_isna_dropna [simp]: "cell_isna (dropna_subset df c) = cell_isna df"
  by (rule ext)+ (simp add: cell_isna_def dropna_subset_def)

lemma frame_columns_dropna [simp]: "frame_columns (dropna_subset df c) = frame_columns df"
  by (simp add: dropna_subset_def)

lemma column_isna_sum_present:
  "c \<in> set (frame_columns df) \<Longrightarrow> column_isna_sum df c = Inr (length (missing_rows df c))"
  by (simp add: column_isna_sum_def getitem_def isna_sum_def missing_rows_def
      cell_isna_def [abs_def] filter_map comp_def)

lemma column_isna_sum_absent:
  "c \<notin> set (frame_columns df) \<Longrightarrow> column_isna_sum df c = Inl (KeyError c)"
  by (simp add: column_isna_sum_def getitem_def)

lemma drop_cols_Cons_present:
  "c \<in> set (frame_columns df) \<Longrightarrow>
     drop_cols df (c # cs) n =
       (fst (drop_cols (dropna_subset df c) cs n),
        fst (snd (drop_cols (dropna_subset df c) cs n)),
        dropped_line (length (missing_rows df c)) c n #
          snd (snd (drop_cols (dropna_subset df c) cs n)))"
  by (simp add: column_isna_sum_present Let_def split: prod.splits)

lemma drop_cols_Cons_absent:
  "c \<notin> set (frame_columns df) \<Longrightarrow> drop_cols df (c # cs) n = (Inl (KeyError c), df, [])"
  by (simp add: column_isna_sum_absent)

declare drop_cols.simps(2) [simp del]

lemma drop_cols_columns:
  "frame_columns (fst (snd (drop_cols df cols n))) = frame_columns df"
proof (induction cols arbitrary: df)
  case Nil
  show ?case by simp
next
  case (Cons c cs)
  show ?case
  proof (cases "c \<in> set (frame_columns df)")
    case True
    show ?thesis using Cons.IH [of "dropna_subset df c"]
      by (simp add: drop_cols_Cons_present [OF True])
  next
    case False
    show ?thesis by (simp add: drop_cols_Cons_absent [OF False])
  qed
qed

lemma drop_cols_result:
  "fst (drop_cols df cols n) =
     (case find (\<lambda>c. c \<notin> set (frame_columns df)) cols of
        None \<Rightarrow> Inr () | Some c \<Rightarrow> Inl (KeyError c))"
proof (induction cols arbitrary: df)
  case Nil
  show ?case by simp
next
  case (Cons c cs)
  show ?case
  proof (cases "c \<in> set (frame_columns df)")
    case True
    show ?thesis using Cons.IH [of "dropna_subset df c"]
      by (simp add: drop_cols_Cons_present [OF True] True)
  next
    case False
    show ?thesis by (simp add: drop_cols_Cons_absent [OF False] False)
  qed
qed

lemma drop_cols_returns_iff:
  "(fst (drop_cols df cols n) = Inr ()) = (set cols \<subseteq> set (frame_columns df))"
proof (cases "find (\<lambda>c. c \<notin> set (frame_columns df)) cols")
  case None
  then have "set cols \<subseteq> set (frame_columns df)" by (auto simp: find_None_iff)
  with None show ?thesis by (simp add: drop_cols_result)
next
  case (Some c)
  then have "c \<in> set cols" and "c \<notin> set (frame_columns df)"
    by (auto simp: find_Some_iff)
  with Some show ?thesis by (auto simp: drop_cols_result)
qed

lemma drop_cols_frame:
  "set cols \<subseteq> set (frame_columns df) \<Longrightarrow>
     fst (snd (drop_cols df cols n)) =
       df\<lparr>frame_rows := filter (\<lambda>r. list_all (\<lambda>c. \<not> cell_isna df c r) cols) (frame_rows df)\<rparr>"
proof (induction cols arbitrary: df)
  case Nil
  show ?case by simp
next
  case (Cons c cs)
  from Cons.prems have c: "c \<in> set (frame_columns df)"
    and cs: "set cs \<subseteq> set (frame_columns (dropna_subset df c))" by simp_all
  show ?case
    by (simp only: drop_cols_Cons_present [OF c] fst_conv snd_conv Cons.IH [OF cs])
       (simp add: dropna_subset_def conj_commute)
qed

lemma drop_cols_lines:
  "set cols \<subseteq> set (frame_columns df) \<Longrightarrow>
     snd (snd (drop_cols df cols n)) =
       map (\<lambda>i. dropped_line
                  (length (missing_rows (fst (snd (drop_cols df (take i cols) n))) (cols ! i)))
                  (cols ! i) n) [0..<length cols]"
proof (induction cols arbitrary: df)
  case Nil
  show ?case by simp
next
  case (Cons c cs)
  from Cons.prems have c: "c \<in> set (frame_columns df)"
    and cs: "set cs \<subseteq> set (frame_columns (dropna_subset df c))" by simp_all
  have "[0..<length (c # cs)] = 0 # map Suc [0..<length cs]"
    by (simp add: upt_conv_Cons map_Suc_upt del: upt_Suc)
  then show ?case
    by (simp only: drop_cols_Cons_present [OF c] fst_conv snd_conv Cons.IH [OF cs])
       (simp add: comp_def drop_cols_Cons_present [OF c])
qed

lemma drop_cols_clean:
  "set cols \<subseteq> set (frame_columns df) \<Longrightarrow>
   list_all (\<lambda>r. list_all (\<lambda>c. \<not> cell_isna df c r) cols) (frame_rows df) \<Longrightarrow>
     drop_cols df cols n = (Inr (), df, map (\<lambda>c. dropped_line 0 c n) cols)"
proof (induction cols)
  case Nil
  show ?case by simp
next
  case (Cons c cs)
  from Cons.prems have c: "c \<in> set (frame_columns df)" by simp
  from Cons.prems have keep: "filter (\<lambda>r. \<not> cell_isna df c r) (frame_rows df) = frame_rows df"
    by (auto simp: list_all_iff intro: filter_True)
  then have same: "dropna_subset df c = df" by (simp add: dropna_subset_def)
  from keep have none: "missing_rows df c = []"
    by (simp add: missing_rows_def filter_empty_conv) (metis filter_id_conv)
  from Cons.prems have "drop_cols df cs n = (Inr (), df, map (\<lambda>c. dropped_line 0 c n) cs)"
    by (intro Cons.IH) (auto simp: list_all_iff)
  then show ?case by (simp add: drop_cols_Cons_present [OF c] same none)
qed


lemma drop_cols_printed_length:
  "length (snd (snd (drop_cols df cols n))) =
     length (takeWhile (\<lambda>c. c \<in> set (frame_columns df)) cols)"
proof (induction cols arbitrary: df)
  case Nil
  show ?case by simp
next
  case (Cons c cs)
  show ?case
  proof (cases "c \<in> set (frame_columns df)")
    case True
    show ?thesis using Cons.IH [of "dropna_subset df c"]
      by (simp add: drop_cols_Cons_present [OF True] True)
  next
    case False
    show ?thesis by (simp add: drop_cols_Cons_absent [OF False] False)
  qed
qed

lemma drop_cols_returnsD:
  assumes "drop_cols df cols n = (Inr (), df', lines)"
  shows "set cols \<subseteq> set (frame_columns df)"
    and "df' = df\<lparr>frame_rows := filter (\<lambda>r. list_all (\<lambda>c. \<not> cell_isna df c r) cols) (frame_rows df)\<rparr>"
proof -
  from assms have "fst (drop_cols df cols n) = Inr ()" by simp
  then show sub: "set cols \<subseteq> set (frame_columns df)" by (simp add: drop_cols_returns_iff)
  from assms have "df' = fst (snd (drop_cols df cols n))" by simp
  then show "df' = df\<lparr>frame_rows := filter (\<lambda>r. list_all (\<lambda>c. \<not> cell_isna df c r) cols) (frame_rows df)\<rparr>"
    by (simp add: drop_cols_frame [OF sub])
qed

lemma index_of_nth:
  "distinct xs \<Longrightarrow> i < length xs \<Longrightarrow> index_of (xs ! i) xs = i"
proof (induction xs arbitrary: i)
  case Nil
  then show ?case by simp
next
  case (Cons x xs)
  then show ?case by (cases i) auto
qed

lemma wf_scenario_df: "wf_frame scenario_df"
  by code_simp

lemma drop_cols_scenario_df:
  "drop_cols scenario_df [''a'', ''b''] 5 = (Inr (), scenario_cleaned, scenario_lines)"
  by code_simp

lemma drop_cols_scenario_after_a:
  "drop_cols scenario_df [''a''] 5 =
     (Inr (), scenario_after_a,
      [''Dropped 2 rows due to nan values in a column, corresponding to a 40.0% of the dataset length''])"
  by code_simp

section \<open>The classifier and the orchestrator at concrete inputs\<close>

text \<open>
  C1. The classifier is meant to split its argument \<^verbatim>\<open>columns\<close> into the labels whose missing
  count exceeds \<^verbatim>\<open>len_df*max_nans\<close> and the others, keeping their order. On the frame
  \<open>passengers_df\<close> with the candidates \<open>cabin\<close>, \<open>age\<close> and 22 rows the call raises
  \<^verbatim>\<open>NameError\<close> and returns no lists; the loop run over the candidates would give
  \<open>([cabin], [age])\<close>.
\<close>

theorem id_nan_columns_partition_fails:
  "id_nan_columns passengers_df [''cabin'', ''age''] 22 default_max_nans =
     Inl (NameError ''colummns_wnan'') \<and>
   id_nan_loop passengers_df 22 default_max_nans [''cabin'', ''age''] ([], []) =
     Inr ([''cabin''], [''age''])"
proof (intro conjI)
  show "id_nan_columns passengers_df [''cabin'', ''age''] 22 default_max_nans =
     Inl (NameError ''colummns_wnan'')"
    by (simp add: id_nan_columns_def load_global_colummns_wnan)
  show "id_nan_loop passengers_df 22 default_max_nans [''cabin'', ''age''] ([], []) =
     Inr ([''cabin''], [''age''])"
    by code_simp
qed

text \<open>
  C3. The orchestrator is meant to return the cleaned frame with the replace candidates.
  On \<open>passengers_df\<close> the candidate list is computed (\<open>cabin\<close>, \<open>age\<close>), and the call
  then raises \<^verbatim>\<open>NameError\<close> in the classifier: nothing is returned, no row is dropped,
  nothing is printed.
\<close>

theorem clean_nan_values_returns_nothing:
  "columns_where (frame_columns passengers_df) (isna_any passengers_df) = [''cabin'', ''age''] \<and>
   clean_nan_values passengers_df =
     (Inl (NameError ''colummns_wnan''), passengers_df, [])"
proof (intro conjI)
  show "columns_where (frame_columns passengers_df) (isna_any passengers_df) = [''cabin'', ''age'']"
    by code_simp
  show "clean_nan_values passengers_df =
     (Inl (NameError ''colummns_wnan''), passengers_df, [])"
    by (simp add: clean_nan_values_def id_nan_columns_def load_global_colummns_wnan)
qed

text \<open>
  C8. With \<^verbatim>\<open>len_df = 0\<close> the comparison of the loop is \<open>missing count > 0\<close>, which
  would send both candidates of \<open>passengers_df\<close> to \<^verbatim>\<open>replacing_nans\<close>; the call raises
  \<^verbatim>\<open>NameError\<close> before any comparison.
\<close>

theorem id_nan_columns_zero_rows_fails:
  "id_nan_columns passengers_df [''cabin'', ''age''] 0 default_max_nans =
     Inl (NameError ''colummns_wnan'') \<and>
   id_nan_loop passengers_df 0 default_max_nans [''cabin'', ''age''] ([], []) =
     Inr ([''cabin'', ''age''], [])"
proof (intro conjI)
  show "id_nan_columns passengers_df [''cabin'', ''age''] 0 default_max_nans =
     Inl (NameError ''colummns_wnan'')"
    by (simp add: id_nan_columns_def load_global_colummns_wnan)
  show "id_nan_loop passengers_df 0 default_max_nans [''cabin'', ''age''] ([], []) =
     Inr ([''cabin'', ''age''], [])"
    by code_simp
qed

section \<open>Properties of the row dropper\<close>

text \<open>
  C4. When \<^verbatim>\<open>drop_cols\<close> returns, every column of the list it was given has no missing
  value left in the frame: \<^verbatim>\<open>df[c].isna().sum()\<close> is 0 for each listed label \<open>c\<close>.
\<close>

theorem drop_cols_clears_drop_columns:
  assumes "wf_frame df"
    and "drop_cols df cols len_df = (Inr (), df', lines)"
    and "c \<in> set cols"
  shows "column_isna_sum df' c = Inr 0"
proof -
  note D = drop_cols_returnsD [OF assms(2)]
  from D(1) assms(3) have "c \<in> set (frame_columns df')" by (auto simp: D(2))
  moreover from assms(3) have "missing_rows df' c = []"
    by (auto simp: D(2) missing_rows_def filter_empty_conv list_all_iff)
  ultimately show ?thesis by (simp add: column_isna_sum_present)
qed

theorem drop_cols_clears_drop_columns_witness:
  "wf_frame scenario_df \<and>
   drop_cols scenario_df [''a'', ''b''] 5 = (Inr (), scenario_cleaned, scenario_lines) \<and>
   ''b'' \<in> set [''a'', ''b''] \<and>
   column_isna_sum scenario_cleaned ''b'' = Inr 0"
proof -
  have mem: "''b'' \<in> set [''a'', ''b'']" by simp
  from drop_cols_clears_drop_columns [OF wf_scenario_df drop_cols_scenario_df mem]
    wf_scenario_df drop_cols_scenario_df mem
  show ?thesis by simp
qed

text \<open>
  C7. When \<^verbatim>\<open>drop_cols\<close> returns, a row of the input is gone exactly when its cell is
  missing under some label of the drop list. A row whose cell is missing under another
  label (a replace candidate) and under no label of the drop list is still there.
\<close>

theorem drop_cols_removes_only_for_drop_columns:
  assumes "wf_frame df"
    and "drop_cols df cols len_df = (Inr (), df', lines)"
    and "r \<in> set (frame_rows df)"
  shows "(r \<notin> set (frame_rows df')) = (\<exists>c\<in>set cols. cell_isna df c r) \<and>
         (cell_isna df replace_col r \<and> (\<forall>c\<in>set cols. \<not> cell_isna df c r)
            \<longrightarrow> r \<in> set (frame_rows df'))"
  using assms(3) by (auto simp: drop_cols_returnsD(2) [OF assms(2)] list_all_iff)

theorem drop_cols_removes_only_for_drop_columns_witness:
  "wf_frame scenario_df \<and>
   drop_cols scenario_df [''a'', ''b''] 5 = (Inr (), scenario_cleaned, scenario_lines) \<and>
   (3, [Some 2, Some 6, None]) \<in> set (frame_rows scenario_df) \<and>
   cell_isna scenario_df ''cabin'' (3, [Some 2, Some 6, None]) \<and>
   (3, [Some 2, Some 6, None]) \<in> set (frame_rows scenario_cleaned) \<and>
   (1, [None, Some 5, None]) \<in> set (frame_rows scenario_df) \<and>
   cell_isna scenario_df ''a'' (1, [None, Some 5, None]) \<and>
   (1, [None, Some 5, None]) \<notin> set (frame_rows scenario_cleaned)"
proof -
  have r3: "(3, [Some 2, Some 6, None]) \<in> set (frame_rows scenario_df)" by code_simp
  have r1: "(1, [None, Some 5, None]) \<in> set (frame_rows scenario_df)" by code_simp
  have c3: "cell_isna scenario_df ''cabin'' (3, [Some 2, Some 6, None])" by code_simp
  have k3: "\<forall>c\<in>set [''a'', ''b'']. \<not> cell_isna scenario_df c (3, [Some 2, Some 6, None])"
    by code_simp
  have c1: "cell_isna scenario_df ''a'' (1, [None, Some 5, None])" by code_simp
  from drop_cols_removes_only_for_drop_columns
         [OF wf_scenario_df drop_cols_scenario_df r3, of "''cabin''"] c3 k3
  have "(3, [Some 2, Some 6, None]) \<in> set (frame_rows scenario_cleaned)" by blast
  moreover
  from drop_cols_removes_only_for_drop_columns
         [OF wf_scenario_df drop_cols_scenario_df r1, of "''cabin''"] c1
  have "(1, [None, Some 5, None]) \<notin> set (frame_rows scenario_cleaned)" by simp
  ultimately show ?thesis
    using wf_scenario_df drop_cols_scenario_df r3 r1 c3 c1 by simp
qed

text \<open>
  C9. \<^verbatim>\<open>drop_cols\<close> raises \<^verbatim>\<open>KeyError\<close> (the specification's ColumnNotFound) for the first
  listed label that is not a column of the frame, after one printed line for each label
  before it, and it returns exactly when every listed label is a column of the frame.
\<close>

theorem drop_cols_KeyError_iff_absent:
  assumes "wf_frame df"
  shows "fst (drop_cols df cols len_df) =
           (case find (\<lambda>c. c \<notin> set (frame_columns df)) cols of
              None \<Rightarrow> Inr () | Some c \<Rightarrow> Inl (KeyError c)) \<and>
         (fst (drop_cols df cols len_df) = Inr ()) = (set cols \<subseteq> set (frame_columns df)) \<and>
         length (snd (snd (drop_cols df cols len_df))) =
           length (takeWhile (\<lambda>c. c \<in> set (frame_columns df)) cols)"
  by (intro conjI) (rule drop_cols_result drop_cols_returns_iff drop_cols_printed_length)+

theorem drop_cols_KeyError_iff_absent_witness:
  "wf_frame scenario_df \<and>
   fst (drop_cols scenario_df [''a'', ''fare'', ''b''] 5) = Inl (KeyError ''fare'') \<and>
   length (snd (snd (drop_cols scenario_df [''a'', ''fare'', ''b''] 5))) = 1 \<and>
   fst (drop_cols scenario_df [''a'', ''b''] 5) = Inr ()"
proof -
  have f: "find (\<lambda>c. c \<notin> set (frame_columns scenario_df)) [''a'', ''fare'', ''b''] = Some ''fare''"
    by code_simp
  have t: "takeWhile (\<lambda>c. c \<in> set (frame_columns scenario_df)) [''a'', ''fare'', ''b''] = [''a'']"
    by code_simp
  have s: "set [''a'', ''b''] \<subseteq> set (frame_columns scenario_df)"
    by code_simp
  note A = drop_cols_KeyError_iff_absent [OF wf_scenario_df, of "[''a'', ''fare'', ''b'']" 5]
  note B = drop_cols_KeyError_iff_absent [OF wf_scenario_df, of "[''a'', ''b'']" 5]
  from A have e: "fst (drop_cols scenario_df [''a'', ''fare'', ''b''] 5) =
      Inl (KeyError ''fare'')"
    by (simp only: f) simp
  from A have l: "length (snd (snd (drop_cols scenario_df [''a'', ''fare'', ''b''] 5))) = 1"
    by (simp only: t) simp
  from B s have r: "fst (drop_cols scenario_df [''a'', ''b''] 5) = Inr ()"
    by blast
  from wf_scenario_df e l r show ?thesis by simp
qed

text \<open>
  C10. When \<^verbatim>\<open>drop_cols\<close> returns, the rows of the frame are a subsequence of the rows it
  was given (index label and cells of every remaining row as before, in the same order),
  nothing but the rows has changed, in particular the column labels and their order; with
  an empty list the frame is unchanged and nothing is printed.
\<close>

theorem drop_cols_only_removes_rows:
  assumes "wf_frame df"
    and "drop_cols df cols len_df = (Inr (), df', lines)"
  shows "subseq (frame_rows df') (frame_rows df) \<and>
         df' = df\<lparr>frame_rows := frame_rows df'\<rparr> \<and>
         frame_columns df' = frame_columns df \<and>
         drop_cols df [] len_df = (Inr (), df, [])"
  by (simp add: drop_cols_returnsD(2) [OF assms(2)])

theorem drop_cols_only_removes_rows_witness:
  "wf_frame scenario_df \<and>
   drop_cols scenario_df [''a'', ''b''] 5 = (Inr (), scenario_cleaned, scenario_lines) \<and>
   subseq (frame_rows scenario_cleaned) (frame_rows scenario_df) \<and>
   frame_columns scenario_cleaned = frame_columns scenario_df \<and>
   drop_cols scenario_df [] 5 = (Inr (), scenario_df, [])"
  using drop_cols_only_removes_rows [OF wf_scenario_df drop_cols_scenario_df]
    wf_scenario_df drop_cols_scenario_df
  by simp

text \<open>
  C5, as stated, fails on \<open>sparse_df\<close>: with 23 missing values of 320 rows the code prints
  7.187, because the quotient 23/320 is rounded to a float before it is multiplied by 100
  and the product falls just below 7.1875; the formula of the claim,
  \<^verbatim>\<open>round(100 * N / original_row_count, 3)\<close>, divides 2300 by 320 exactly and gives 7.188.
\<close>

theorem drop_cols_percentage_counterexample:
  "column_isna_sum sparse_df ''age'' = Inr 23 \<and>
   length (frame_rows sparse_df) = 320 \<and>
   snd (snd (drop_cols sparse_df [''age''] 320)) =
     [''Dropped 23 rows due to nan values in age column, corresponding to a 7.187% of the dataset length''] \<and>
   claimed_pct_text 23 320 = ''7.188''"
proof (intro conjI)
  show "column_isna_sum sparse_df ''age'' = Inr 23"
    by code_simp
  show "length (frame_rows sparse_df) = 320"
    by code_simp
  show "snd (snd (drop_cols sparse_df [''age''] 320)) =
     [''Dropped 23 rows due to nan values in age column, corresponding to a 7.187% of the dataset length'']"
    by code_simp
  show "claimed_pct_text 23 320 = ''7.188''"
    by code_simp
qed

text \<open>
  C5, amended. When every listed label is a column of the frame, \<^verbatim>\<open>drop_cols\<close> prints
  exactly one line per label, in the order of the list. The line of the \<open>i\<close>-th label reads
  \<^verbatim>\<open>Dropped N rows due to nan values in <label> column, corresponding to a P% of the
  dataset length\<close>, where \<open>N\<close> is the missing count of that column in the frame as the labels
  before it have left it, and \<open>P\<close> is the text of \<^verbatim>\<open>round((N/len_df)*100, 3)\<close> in binary
  floating point: the quotient of \<open>N\<close> by the argument \<^verbatim>\<open>len_df\<close> (the same for every
  line) rounded to a float, times 100 rounded to a float, times 1000 rounded to a float,
  that to the nearest integer with ties to even, as thousandths. The frame has fewer than
  \<open>10^10\<close> rows and \<^verbatim>\<open>len_df\<close> is positive and below \<open>2^53\<close>.
\<close>

theorem drop_cols_prints_live_counts:
  assumes "wf_frame df"
    and "set cols \<subseteq> set (frame_columns df)"
    and "length (frame_rows df) < 10 ^ 10"
    and "0 < len_df" and "len_df < 2 ^ 53"
  shows "length (snd (snd (drop_cols df cols len_df))) = length cols \<and>
         (\<forall>i<length cols. \<exists>N.
            column_isna_sum (fst (snd (drop_cols df (take i cols) len_df))) (cols ! i) = Inr N \<and>
            snd (snd (drop_cols df cols len_df)) ! i =
              ''Dropped '' @ str_nat N @ '' rows due to nan values in '' @ cols ! i @
              '' column, corresponding to a '' @
              str_thousandths
                (rne (fl (fl (fl (Fract (int N) (int len_df)) * 100) * 1000))) @
              ''% of the dataset length'')"
proof (intro conjI allI impI)
  show "length (snd (snd (drop_cols df cols len_df))) = length cols"
    by (simp add: drop_cols_lines [OF assms(2)])
next
  fix i assume i: "i < length cols"
  let ?dfi = "fst (snd (drop_cols df (take i cols) len_df))"
  let ?N = "length (missing_rows ?dfi (cols ! i))"
  from i assms(2) have "cols ! i \<in> set (frame_columns ?dfi)"
    by (auto simp: drop_cols_columns)
  then have count: "column_isna_sum ?dfi (cols ! i) = Inr ?N"
    by (rule column_isna_sum_present)
  from i have "snd (snd (drop_cols df cols len_df)) ! i = dropped_line ?N (cols ! i) len_df"
    by (simp add: drop_cols_lines [OF assms(2)])
  with assms(4) have line: "snd (snd (drop_cols df cols len_df)) ! i =
      ''Dropped '' @ str_nat ?N @ '' rows due to nan values in '' @ cols ! i @
      '' column, corresponding to a '' @
      str_thousandths (rne (fl (fl (fl (Fract (int ?N) (int len_df)) * 100) * 1000))) @
      ''% of the dataset length''"
    by (simp add: dropped_line_def pct_text_def pct_thousandths_def)
  from count line
  show "\<exists>N. column_isna_sum ?dfi (cols ! i) = Inr N \<and>
      snd (snd (drop_cols df cols len_df)) ! i =
        ''Dropped '' @ str_nat N @ '' rows due to nan values in '' @ cols ! i @
        '' column, corresponding to a '' @
        str_thousandths (rne (fl (fl (fl (Fract (int N) (int len_df)) * 100) * 1000))) @
        ''% of the dataset length''"
    by blast
qed

theorem drop_cols_prints_live_counts_witness:
  "wf_frame scenario_df \<and>
   set [''a'', ''b''] \<subseteq> set (frame_columns scenario_df) \<and>
   length (frame_rows scenario_df) < 10 ^ 10 \<and> (0::nat) < 5 \<and> (5::nat) < 2 ^ 53 \<and>
   length (snd (snd (drop_cols scenario_df [''a'', ''b''] 5))) = 2 \<and>
   column_isna_sum scenario_df ''b'' = Inr 2 \<and>
   column_isna_sum scenario_after_a ''b'' = Inr 1 \<and>
   snd (snd (drop_cols scenario_df [''a'', ''b''] 5)) ! 1 =
     ''Dropped 1 rows due to nan values in b column, corresponding to a 20.0% of the dataset length''"
proof -
  have s: "set [''a'', ''b''] \<subseteq> set (frame_columns scenario_df)"
    by code_simp
  have rows: "length (frame_rows scenario_df) < 10 ^ 10"
    by (simp add: scenario_df_def)
  have pos: "(0::nat) < 5" and small: "(5::nat) < 2 ^ 53" by simp_all
  have a: "fst (snd (drop_cols scenario_df [''a''] 5)) = scenario_after_a"
    by (simp add: drop_cols_scenario_after_a)
  have b0: "column_isna_sum scenario_df ''b'' = Inr 2" by code_simp
  have b1: "column_isna_sum scenario_after_a ''b'' = Inr 1" by code_simp
  have p: "str_thousandths (rne (fl (fl (fl (Fract (int 1) (int 5)) * 100) * 1000))) = ''20.0''"
    by code_simp
  have n: "str_nat 1 = ''1''" by code_simp
  have one: "1 < length [''a'', ''b'']" by simp
  note L = drop_cols_prints_live_counts [OF wf_scenario_df s rows pos small]
  from L have len: "length (snd (snd (drop_cols scenario_df [''a'', ''b''] 5))) = 2"
    by simp
  from L [THEN conjunct2, rule_format, OF one]
  obtain N where
    n1: "column_isna_sum (fst (snd (drop_cols scenario_df [''a''] 5))) ''b'' = Inr N"
    and n2: "snd (snd (drop_cols scenario_df [''a'', ''b''] 5)) ! 1 =
      ''Dropped '' @ str_nat N @ '' rows due to nan values in '' @ ''b'' @
      '' column, corresponding to a '' @
      str_thousandths (rne (fl (fl (fl (Fract (int N) (int 5)) * 100) * 1000))) @
      ''% of the dataset length''"
    by auto
  from n1 have "N = 1" by (simp add: a b1)
  with n2 have "snd (snd (drop_cols scenario_df [''a'', ''b''] 5)) ! 1 =
      ''Dropped 1 rows due to nan values in b column, corresponding to a 20.0% of the dataset length''"
    by (simp only: p n) simp
  with wf_scenario_df s rows len b0 b1 show ?thesis by simp
qed

section \<open>Running twice\<close>

text \<open>
  What the stages leave for a second run: none of the labels \<^verbatim>\<open>drop_cols\<close> was given is
  selected again by the candidate computation of the orchestrator; \<^verbatim>\<open>drop_cols\<close> run again
  on the same labels removes no row and reports 0 rows each time; and a column whose
  missing rows were all kept, and which the comparison of the classifier made a replace
  candidate over the rows of the first frame, is one again over the rows that are left,
  for a threshold that is not negative.
\<close>

lemma candidate_has_missing_cell:
  assumes "distinct (frame_columns df)"
    and "c \<in> set (columns_where (frame_columns df) (isna_any df))"
  shows "\<exists>r\<in>set (frame_rows df). cell_isna df c r"
proof -
  from assms(2) obtain b where "(c, b) \<in> set (zip (frame_columns df) (isna_any df))" and "b"
    by (auto simp: columns_where_def)
  then obtain i where i: "i < length (frame_columns df)"
    and c: "frame_columns df ! i = c" and b: "isna_any df ! i"
    by (auto simp: in_set_zip)
  from i b have "list_ex (\<lambda>r. snd r ! i = None) (frame_rows df)"
    by (simp add: isna_any_def)
  moreover from assms(1) i c have "index_of c (frame_columns df) = i"
    by (auto simp: index_of_nth)
  ultimately show ?thesis by (auto simp: list_ex_iff cell_isna_def)
qed

lemma dropped_columns_no_longer_candidates:
  assumes "wf_frame df"
    and "drop_cols df cols len_df = (Inr (), df', lines)"
    and "c \<in> set cols"
  shows "c \<notin> set (columns_where (frame_columns df') (isna_any df'))"
proof
  assume cand: "c \<in> set (columns_where (frame_columns df') (isna_any df'))"
  note D = drop_cols_returnsD [OF assms(2)]
  from assms(1) have "distinct (frame_columns df')" by (simp add: D(2) wf_frame_def)
  from candidate_has_missing_cell [OF this cand]
  obtain r where "r \<in> set (frame_rows df')" and "cell_isna df' c r" by blast
  with assms(3) show False by (auto simp: D(2) list_all_iff)
qed

lemma drop_cols_twice_changes_nothing:
  assumes "wf_frame df"
    and "drop_cols df cols len_df = (Inr (), df', lines)"
  shows "drop_cols df' cols len_df = (Inr (), df', map (\<lambda>c. dropped_line 0 c len_df) cols)"
proof -
  note D = drop_cols_returnsD [OF assms(2)]
  from D(1) have "set cols \<subseteq> set (frame_columns df')" by (simp add: D(2))
  moreover have "list_all (\<lambda>r. list_all (\<lambda>c. \<not> cell_isna df' c r) cols) (frame_rows df')"
    by (simp add: D(2) list_all_iff)
  ultimately show ?thesis by (rule drop_cols_clean)
qed

lemma id_nan_loop_single:
  "c \<in> set (frame_columns df) \<Longrightarrow>
     id_nan_loop df n max_nans [c] ([], []) =
       (if rat_of_int (int (length (missing_rows df c))) > fl (rat_of_int (int n) * fl max_nans)
        then Inr ([c], []) else Inr ([], [c]))"
  by (simp add: column_isna_sum_present)

lemma replace_class_kept:
  assumes "0 \<le> max_nans"
    and "drop_cols df cols len_df = (Inr (), df', lines)"
    and "c \<in> set (frame_columns df)"
    and "missing_rows df' c = missing_rows df c"
    and "id_nan_loop df (length (frame_rows df)) max_nans [c] ([], []) = Inr ([c], [])"
  shows "id_nan_loop df' (length (frame_rows df')) max_nans [c] ([], []) = Inr ([c], [])"
proof -
  note D = drop_cols_returnsD [OF assms(2)]
  let ?N = "rat_of_int (int (length (missing_rows df c)))"
  from assms(3) have c': "c \<in> set (frame_columns df')" by (simp add: D(2))
  from assms(5) [unfolded id_nan_loop_single [OF assms(3)]]
  have first: "fl (rat_of_int (int (length (frame_rows df))) * fl max_nans) < ?N"
    by (simp split: if_splits)
  have "length (frame_rows df') \<le> length (frame_rows df)"
    by (simp add: D(2))
  then have "rat_of_int (int (length (frame_rows df'))) \<le> rat_of_int (int (length (frame_rows df)))"
    by simp
  moreover from assms(1) have t: "0 \<le> fl max_nans" by (rule fl_nonneg)
  ultimately have "rat_of_int (int (length (frame_rows df'))) * fl max_nans
      \<le> rat_of_int (int (length (frame_rows df))) * fl max_nans"
    by (rule mult_right_mono)
  moreover from t have "0 \<le> rat_of_int (int (length (frame_rows df'))) * fl max_nans"
    by simp
  ultimately have "fl (rat_of_int (int (length (frame_rows df'))) * fl max_nans)
      \<le> fl (rat_of_int (int (length (frame_rows df))) * fl max_nans)"
    by (intro fl_mono)
  with first have "fl (rat_of_int (int (length (frame_rows df'))) * fl max_nans) < ?N"
    by simp
  then show ?thesis
    unfolding id_nan_loop_single [OF c'] assms(4) by simp
qed

text \<open>
  C6. A second run of the pipeline on the cleaned frame is meant to change nothing. On
  \<open>rerun_df\<close> that is what the stages give when run by hand: the candidates \<open>cabin\<close>, \<open>age\<close>
  split into the replace candidate \<open>cabin\<close> and the drop candidate \<open>age\<close>; dropping for
  \<open>age\<close> leaves \<open>rerun_cleaned\<close>, whose only candidate is \<open>cabin\<close>, a replace candidate again
  over its 21 rows, so that nothing is left to drop. The pipeline itself raises
  \<^verbatim>\<open>NameError\<close> in its first run on \<open>rerun_df\<close>, and again on \<open>rerun_cleaned\<close>: there is no
  cleaned frame and no classification, neither the first time nor the second.
\<close>

theorem clean_nan_values_rerun_fails:
  "clean_nan_values rerun_df = (Inl (NameError ''colummns_wnan''), rerun_df, []) \<and>
   clean_nan_values rerun_cleaned = (Inl (NameError ''colummns_wnan''), rerun_cleaned, []) \<and>
   columns_where (frame_columns rerun_df) (isna_any rerun_df) = [''cabin'', ''age''] \<and>
   length (frame_rows rerun_df) = 22 \<and>
   id_nan_loop rerun_df 22 default_max_nans [''cabin'', ''age''] ([], []) =
     Inr ([''cabin''], [''age'']) \<and>
   drop_cols rerun_df [''age''] 22 =
     (Inr (), rerun_cleaned,
      [''Dropped 1 rows due to nan values in age column, corresponding to a 4.545% of the dataset length'']) \<and>
   columns_where (frame_columns rerun_cleaned) (isna_any rerun_cleaned) = [''cabin''] \<and>
   length (frame_rows rerun_cleaned) = 21 \<and>
   id_nan_loop rerun_cleaned 21 default_max_nans [''cabin''] ([], []) = Inr ([''cabin''], []) \<and>
   drop_cols rerun_cleaned [] 21 = (Inr (), rerun_cleaned, [])"
proof (intro conjI)
  show "clean_nan_values rerun_df = (Inl (NameError ''colummns_wnan''), rerun_df, [])"
    by (simp add: clean_nan_values_def id_nan_columns_def load_global_colummns_wnan)
  show "clean_nan_values rerun_cleaned = (Inl (NameError ''colummns_wnan''), rerun_cleaned, [])"
    by (simp add: clean_nan_values_def id_nan_columns_def load_global_colummns_wnan)
  show "columns_where (frame_columns rerun_df) (isna_any rerun_df) = [''cabin'', ''age'']"
    by code_simp
  show "length (frame_rows rerun_df) = 22"
    by code_simp
  show "id_nan_loop rerun_df 22 default_max_nans [''cabin'', ''age''] ([], []) =
     Inr ([''cabin''], [''age''])"
    by code_simp
  show "drop_cols rerun_df [''age''] 22 =
     (Inr (), rerun_cleaned,
      [''Dropped 1 rows due to nan values in age column, corresponding to a 4.545% of the dataset length''])"
    by code_simp
  show "columns_where (frame_columns rerun_cleaned) (isna_any rerun_cleaned) = [''cabin'']"
    by code_simp
  show "length (frame_rows rerun_cleaned) = 21"
    by code_simp
  show "id_nan_loop rerun_cleaned 21 default_max_nans [''cabin''] ([], []) = Inr ([''cabin''], [])"
    by code_simp
  show "drop_cols rerun_cleaned [] 21 = (Inr (), rerun_cleaned, [])"
    by simp
qed

end
